theory Spec2Isabelle
  imports Complex_Main "HOL-Library.Multiset"
begin

section \<open>Time, text and exceptions\<close>

text \<open>
  A \<open>datetime\<close> is a count of seconds on one fixed clock, a date is a count of days.
  \<open>date_of\<close> is \<open>datetime.date()\<close> and SQL's \<open>date(...)\<close>; \<open>datetime_of_date\<close> is what a
  DateTime column stores when it is given a date (midnight of that day);
  \<open>timedelta_days n\<close> is \<open>timedelta(days=n)\<close> added to a datetime.
\<close>

type_synonym datetime = int

definition date_of :: "datetime \<Rightarrow> int" where
  "date_of t = t div 86400"

definition datetime_of_date :: "int \<Rightarrow> datetime" where
  "datetime_of_date d = d * 86400"

definition timedelta_days :: "int \<Rightarrow> int" where
  "timedelta_days n = n * 86400"

text \<open>\<open>str(n)\<close> for a non-negative integer: its decimal digits.\<close>

function str_nat :: "nat \<Rightarrow> string" where
  "str_nat n =
     (if n < 10 then [char_of (48 + n)]
      else str_nat (n div 10) @ [char_of (48 + n mod 10)])"
  by pat_completeness auto
termination
  by (relation "measure (\<lambda>n. n)") auto

declare str_nat.simps [simp del]

text \<open>
  \<open>str(d)\<close> for a date: \<open>YYYY-MM-DD\<close> in the proleptic Gregorian calendar, day 0 being
  1970-01-01. Python's dates have years 1 to 9999.
\<close>

definition zfill :: "nat \<Rightarrow> string \<Rightarrow> string" where
  "zfill w s = replicate (w - length s) (CHR ''0'') @ s"

definition civil_of_days :: "int \<Rightarrow> int \<times> int \<times> int" where
  "civil_of_days z0 =
     (let z = z0 + 719468;
          era = z div 146097;
          doe = z - era * 146097;
          yoe = (doe - doe div 1460 + doe div 36524 - doe div 146096) div 365;
          doy = doe - (365 * yoe + yoe div 4 - yoe div 100);
          mp = (5 * doy + 2) div 153;
          dd = doy - (153 * mp + 2) div 5 + 1;
          mm = (if mp < 10 then mp + 3 else mp - 9);
          yy = yoe + era * 400 + (if mm \<le> 2 then 1 else 0)
      in (yy, mm, dd))"

definition str_date :: "int \<Rightarrow> string" where
  "str_date z =
     (case civil_of_days z of
        (yy, mm, dd) \<Rightarrow>
          zfill 4 (str_nat (nat yy)) @ ''-'' @ zfill 2 (str_nat (nat mm)) @ ''-''
            @ zfill 2 (str_nat (nat dd)))"

text \<open>
  An exception is kept as the text \<open>str(e)\<close> gives for it; the program never looks at
  anything else of an exception it has caught.
\<close>

type_synonym exn = string

datatype HTTPException = HTTPException nat string

section \<open>models.py and schemas.py\<close>

text \<open>
  \<open>DailyStats\<close> is the ORM class of table \<open>daily_stats\<close>. \<open>SensorReadingBase\<close> is the
  pydantic schema of a reading, \<open>SensorReadingCreate\<close> adds nothing to it, and
  \<open>SensorReading\<close> (the ORM class of table \<open>sensor_readings\<close>, and the response schema read
  from it) adds the primary key. Reading values are real numbers: floating-point
  rounding is not modelled.
\<close>

record DailyStats =
  id' :: nat
  date :: datetime
  field_id :: string
  sensor_type :: string
  avg_value :: real
  min_value :: real
  max_value :: real
  count_readings :: nat

record SensorReadingBase =
  timestamp :: datetime
  field_id :: string
  sensor_type :: string
  reading_value :: real
  unit :: string

type_synonym SensorReadingCreate = SensorReadingBase

record SensorReading = SensorReadingBase +
  id' :: nat

text \<open>
  One item of the JSON body of \<open>POST /sensor-data\<close> before validation: any key may be
  missing. \<open>validate_reading\<close> is what the declarations of \<open>SensorReadingBase\<close> make
  pydantic check: all five fields are required (\<open>timestamp: datetime\<close> has no default
  and is not Optional), and the three strings have \<open>min_length=1\<close> and
  \<open>max_length\<close> 50, 50 and 20.
\<close>

record raw_reading =
  raw_timestamp :: "datetime option"
  raw_field_id :: "string option"
  raw_sensor_type :: "string option"
  raw_reading_value :: "real option"
  raw_unit :: "string option"

definition validate_reading :: "raw_reading \<Rightarrow> SensorReadingCreate option" where
  "validate_reading j =
     (case (raw_timestamp j, raw_field_id j, raw_sensor_type j, raw_reading_value j, raw_unit j) of
        (Some t, Some f, Some s, Some v, Some u) \<Rightarrow>
          if 1 \<le> length f \<and> length f \<le> 50 \<and> 1 \<le> length s \<and> length s \<le> 50
             \<and> 1 \<le> length u \<and> length u \<le> 20
          then Some \<lparr>timestamp = t, field_id = f, sensor_type = s, reading_value = v, unit = u\<rparr>
          else None
      | _ \<Rightarrow> None)"

text \<open>
  The ORM constructor \<open>SensorReading(timestamp=..., field_id=..., ...)\<close> together with the
  INSERT that gives the row its primary key \<open>k\<close>. Column \<open>timestamp\<close> is declared with
  \<open>default=func.now()\<close>: a row whose timestamp is not given gets the time of the insert.
\<close>

definition new_SensorReading ::
  "datetime \<Rightarrow> nat \<Rightarrow> datetime option \<Rightarrow> string \<Rightarrow> string \<Rightarrow> real \<Rightarrow> string \<Rightarrow> SensorReading" where
  "new_SensorReading now k ts f s v u =
     \<lparr>timestamp = (case ts of None \<Rightarrow> now | Some t \<Rightarrow> t),
      field_id = f, sensor_type = s, reading_value = v, unit = u, id' = k\<rparr>"

text \<open>\<open>SensorReading(**reading.dict())\<close>: every key of the schema is passed, the timestamp too.\<close>

definition SensorReading_of_dict :: "datetime \<Rightarrow> nat \<Rightarrow> SensorReadingCreate \<Rightarrow> SensorReading" where
  "SensorReading_of_dict now k r =
     new_SensorReading now k (Some (timestamp r)) (field_id r) (sensor_type r)
       (reading_value r) (unit r)"

section \<open>The database\<close>

text \<open>
  The two tables, in insertion order, and the next primary key of each (the database
  hands out keys in increasing order). A unit of work that raises leaves the database as
  it was: the session is closed without a commit. The argument \<open>fault\<close> of the operations
  below is the exception the database raises when the unit of work is committed, if it
  raises one. Faults of the message broker are not modelled.
\<close>

record database =
  sensor_readings :: "SensorReading list"
  daily_stats :: "DailyStats list"
  sensor_readings_seq :: nat
  daily_stats_seq :: nat

definition create_tables :: database where
  "create_tables = \<lparr>sensor_readings = [], daily_stats = [],
     sensor_readings_seq = 1, daily_stats_seq = 1\<rparr>"

text \<open>\<open>db.add\<close> for each reading in turn, then the flush that numbers the new rows.\<close>

fun add_all :: "datetime \<Rightarrow> nat \<Rightarrow> SensorReadingCreate list \<Rightarrow> SensorReading list" where
  "add_all now k [] = []"
| "add_all now k (r # rs) = SensorReading_of_dict now k r # add_all now (Suc k) rs"

section \<open>services.py: SensorService\<close>

definition create_sensor_readings_batch ::
  "datetime \<Rightarrow> exn option \<Rightarrow> SensorReadingCreate list \<Rightarrow> database
     \<Rightarrow> (exn + SensorReading list) \<times> database" where
  "create_sensor_readings_batch now fault readings d =
     (case fault of
        Some e \<Rightarrow> (Inl e, d)
      | None \<Rightarrow>
          let db_readings = add_all now (sensor_readings_seq d) readings
          in (Inr db_readings,
              d\<lparr>sensor_readings := sensor_readings d @ db_readings,
                sensor_readings_seq := sensor_readings_seq d + length readings\<rparr>))"

text \<open>
  The application state: the database, the broker's queue of tasks that were submitted
  and not yet run (each with its task id), and the result backend, which the worker
  fills in and \<open>GET /task/{task_id}\<close> reads. A batch task carries the serialized readings.
\<close>

datatype jval = JStr string | JNat nat

type_synonym jdict = "(string \<times> jval) list"

datatype task_info = NoInfo | DictInfo jdict | ExcInfo exn

record AsyncResult =
  state :: string
  info :: task_info

datatype task = process_sensor_data_batch_task "SensorReadingCreate list" | calculate_daily_stats_task

record app =
  db :: database
  queue :: "(string \<times> task) list"
  backend :: "string \<rightharpoonup> AsyncResult"

definition startup_event :: app where
  "startup_event = \<lparr>db = create_tables, queue = [], backend = Map.empty\<rparr>"

text \<open>
  \<open>process_sensor_data_batch.delay(readings_data)\<close>: the task is put on the queue and its
  id, which Celery generates (\<open>task_id\<close> here), is returned.
\<close>

definition process_large_batch :: "string \<Rightarrow> SensorReadingCreate list \<Rightarrow> app \<Rightarrow> string \<times> app" where
  "process_large_batch task_id readings a =
     (task_id, a\<lparr>queue := queue a @ [(task_id, process_sensor_data_batch_task readings)]\<rparr>)"

section \<open>main.py: POST /sensor-data\<close>

text \<open>
  What the handler returns: the stored rows, or the message, task id and status of a batch
  handed to the background. A database exception becomes status 500.
\<close>

datatype sensor_data_response =
    Rows "SensorReading list"
  | Accepted string string string

definition create_sensor_data ::
  "string \<Rightarrow> datetime \<Rightarrow> exn option \<Rightarrow> SensorReadingCreate list \<Rightarrow> app
     \<Rightarrow> (HTTPException + sensor_data_response) \<times> app" where
  "create_sensor_data task_id now fault readings a =
     (if length readings > 100 then
        (let (tid, a') = process_large_batch task_id readings a
         in (Inr (Accepted (''Processing '' @ str_nat (length readings) @ '' readings in background'')
                    tid ''processing''), a'))
      else
        (case create_sensor_readings_batch now fault readings (db a) of
           (Inl e, d') \<Rightarrow> (Inl (HTTPException 500 (''Error processing sensor data: '' @ e)), a)
         | (Inr db_readings, d') \<Rightarrow> (Inr (Rows db_readings), a\<lparr>db := d'\<rparr>)))"

text \<open>
  The endpoint as a client reaches it: the body is validated against
  \<open>List[SensorReadingCreate]\<close> first, and a body with an invalid item is refused with
  status 422 before \<open>create_sensor_data\<close> runs.
\<close>

definition post_sensor_data ::
  "string \<Rightarrow> datetime \<Rightarrow> exn option \<Rightarrow> raw_reading list \<Rightarrow> app
     \<Rightarrow> (HTTPException + sensor_data_response) \<times> app" where
  "post_sensor_data task_id now fault body a =
     (case those (map validate_reading body) of
        None \<Rightarrow> (Inl (HTTPException 422 ''Unprocessable Entity''), a)
      | Some readings \<Rightarrow> create_sensor_data task_id now fault readings a)"

section \<open>services.py: AnalyticsService\<close>









section \<open>main.py: GET /readings\<close>

text \<open>
  \<open>if field_id:\<close> holds for a string that is given and not empty. \<open>limit\<close> and \<open>offset\<close>
  are natural numbers here: what a negative LIMIT or OFFSET does is up to the database.
  ORDER BY leaves the order of rows with equal timestamps open; the model keeps them in
  table order.
\<close>

definition truthy :: "string option \<Rightarrow> bool" where
  "truthy x = (case x of None \<Rightarrow> False | Some s \<Rightarrow> s \<noteq> [])"

definition order_by_timestamp_desc :: "SensorReading list \<Rightarrow> SensorReading list" where
  "order_by_timestamp_desc rows = sort_key (\<lambda>r. - timestamp r) rows"

definition get_readings ::
  "exn option \<Rightarrow> nat \<Rightarrow> nat \<Rightarrow> string option \<Rightarrow> string option \<Rightarrow> app
     \<Rightarrow> HTTPException + SensorReading list" where
  "get_readings fault limit offset fid stype a =
     (case fault of
        Some e \<Rightarrow> Inl (HTTPException 500 (''Error fetching readings: '' @ e))
      | None \<Rightarrow>
          let query = sensor_readings (db a);
              query = (if truthy fid then filter (\<lambda>r. Some (field_id r) = fid) query else query);
              query = (if truthy stype then filter (\<lambda>r. Some (sensor_type r) = stype) query
                       else query)
          in Inr (take limit (drop offset (order_by_timestamp_desc query))))"

section \<open>tasks.py\<close>

text \<open>
  The loop of \<open>process_sensor_data_batch\<close> over \<open>enumerate(readings_data)\<close>: the rows added
  to the session, \<open>processed_count\<close>, and the \<open>(current, total)\<close> pairs given to
  \<open>update_state\<close>, one for every tenth index.
\<close>

fun batch_loop ::
  "nat \<Rightarrow> nat \<Rightarrow> SensorReadingCreate list
     \<Rightarrow> SensorReadingCreate list \<times> nat \<times> (nat \<times> nat) list
     \<Rightarrow> SensorReadingCreate list \<times> nat \<times> (nat \<times> nat) list" where
  "batch_loop tot i [] acc = acc"
| "batch_loop tot i (reading_data # rest) (session, processed_count, updates) =
     batch_loop tot (Suc i) rest
       (session @ [reading_data], processed_count + 1,
        if i mod 10 = 0 then updates @ [(i, tot)] else updates)"

text \<open>
  The task returns the \<open>update_state\<close> calls it made, the dictionary it returns, whether it
  called \<open>calculate_daily_stats.delay()\<close>, and the database. Every exception is caught
  inside the task, which then returns a dictionary as well.
\<close>

definition process_sensor_data_batch ::
  "datetime \<Rightarrow> exn option \<Rightarrow> SensorReadingCreate list \<Rightarrow> database
     \<Rightarrow> (nat \<times> nat) list \<times> jdict \<times> bool \<times> database" where
  "process_sensor_data_batch now fault readings_data d =
     (case batch_loop (length readings_data) 0 readings_data
             ([], 0, [(0, length readings_data)]) of
        (session, processed_count, updates) \<Rightarrow>
          (case fault of
             Some e \<Rightarrow>
               (updates, [(''status'', JStr ''FAILURE''), (''error'', JStr e)], False, d)
           | None \<Rightarrow>
               (updates,
                [(''status'', JStr ''SUCCESS''),
                 (''processed_count'', JNat processed_count),
                 (''message'', JStr (''Successfully processed '' @ str_nat processed_count
                                      @ '' sensor readings''))],
                True,
                d\<lparr>sensor_readings :=
                    sensor_readings d @ add_all now (sensor_readings_seq d) session,
                  sensor_readings_seq := sensor_readings_seq d + length session\<rparr>)))"

text \<open>
  SQL's aggregates are NULL over no rows, and \<open>float(None)\<close> raises TypeError. GROUP BY
  gives one result row for each (field_id, sensor_type) pair that occurs among the rows
  the filter lets through.
\<close>

definition sql_avg :: "real list \<Rightarrow> real option" where
  "sql_avg vs = (if vs = [] then None else Some (sum_list vs / real (length vs)))"

fun sql_min :: "real list \<Rightarrow> real option" where
  "sql_min [] = None"
| "sql_min (x # xs) = Some (fold min xs x)"

fun sql_max :: "real list \<Rightarrow> real option" where
  "sql_max [] = None"
| "sql_max (x # xs) = Some (fold max xs x)"

definition py_float :: "real option \<Rightarrow> exn + real" where
  "py_float x =
     (case x of
        None \<Rightarrow> Inl ''float() argument must be a string or a real number, not NoneType''
      | Some v \<Rightarrow> Inr v)"

type_synonym stat_row = "string \<times> string \<times> real option \<times> real option \<times> real option \<times> nat"

definition stats_query :: "int \<Rightarrow> database \<Rightarrow> stat_row list" where
  "stats_query yesterday d =
     (let rows = filter (\<lambda>r. date_of (timestamp r) = yesterday) (sensor_readings d);
          groups = remdups (map (\<lambda>r. (field_id r, sensor_type r)) rows)
      in map (\<lambda>(f, s).
                let vs = map reading_value
                           (filter (\<lambda>r. field_id r = f \<and> sensor_type r = s) rows)
                in (f, s, sql_avg vs, sql_min vs, sql_max vs, length vs))
             groups)"

fun insert_stats :: "int \<Rightarrow> nat \<Rightarrow> stat_row list \<Rightarrow> exn + DailyStats list" where
  "insert_stats yesterday k [] = Inr []"
| "insert_stats yesterday k ((f, s, a, mn, mx, c) # rest) =
     (case py_float a of
        Inl e \<Rightarrow> Inl e
      | Inr a' \<Rightarrow>
          (case py_float mn of
             Inl e \<Rightarrow> Inl e
           | Inr mn' \<Rightarrow>
               (case py_float mx of
                  Inl e \<Rightarrow> Inl e
                | Inr mx' \<Rightarrow>
                    (case insert_stats yesterday (Suc k) rest of
                       Inl e \<Rightarrow> Inl e
                     | Inr ds \<Rightarrow>
                         Inr (\<lparr>DailyStats.id' = k, date = datetime_of_date yesterday,
                               DailyStats.field_id = f, DailyStats.sensor_type = s,
                               avg_value = a', min_value = mn', max_value = mx',
                               count_readings = c\<rparr> # ds)))))"

definition calculate_daily_stats :: "datetime \<Rightarrow> exn option \<Rightarrow> database \<Rightarrow> jdict \<times> database" where
  "calculate_daily_stats now fault d =
     (let yesterday = date_of now - 1;
          kept = filter (\<lambda>s. date_of (date s) \<noteq> yesterday) (daily_stats d)
      in case fault of
           Some e \<Rightarrow> ([(''status'', JStr ''FAILURE''), (''error'', JStr e)], d)
         | None \<Rightarrow>
             (case insert_stats yesterday (daily_stats_seq d) (stats_query yesterday d) of
                Inl e \<Rightarrow> ([(''status'', JStr ''FAILURE''), (''error'', JStr e)], d)
              | Inr new \<Rightarrow>
                  ([(''status'', JStr ''SUCCESS''),
                    (''message'', JStr (''Daily stats calculated for '' @ str_date yesterday))],
                   d\<lparr>daily_stats := kept @ new,
                     daily_stats_seq := daily_stats_seq d + length new\<rparr>)))"

definition cleanup_old_data :: "datetime \<Rightarrow> exn option \<Rightarrow> database \<Rightarrow> jdict \<times> database" where
  "cleanup_old_data now fault d =
     (let cutoff_date = now - timedelta_days 90;
          deleted_count = length (filter (\<lambda>r. timestamp r < cutoff_date) (sensor_readings d))
      in case fault of
           Some e \<Rightarrow> ([(''status'', JStr ''FAILURE''), (''error'', JStr e)], d)
         | None \<Rightarrow>
             ([(''status'', JStr ''SUCCESS''),
               (''deleted_count'', JNat deleted_count),
               (''message'', JStr (''Cleaned up '' @ str_nat deleted_count
                                    @ '' old sensor readings''))],
              d\<lparr>sensor_readings :=
                  filter (\<lambda>r. \<not> timestamp r < cutoff_date) (sensor_readings d)\<rparr>))"

section \<open>The Celery worker\<close>

text \<open>
  Celery records what a task function does: a function that returns is stored with state
  SUCCESS and its return value as the result, a function that raises is stored with
  state FAILURE and the exception. The worker takes the oldest task of the queue; the
  id of a task that the running task submits is \<open>new_id\<close>.
\<close>

definition store_result :: "exn + jdict \<Rightarrow> AsyncResult" where
  "store_result r =
     (case r of
        Inr v \<Rightarrow> \<lparr>state = ''SUCCESS'', info = DictInfo v\<rparr>
      | Inl e \<Rightarrow> \<lparr>state = ''FAILURE'', info = ExcInfo e\<rparr>)"

definition worker :: "string \<Rightarrow> datetime \<Rightarrow> exn option \<Rightarrow> app \<Rightarrow> app" where
  "worker new_id now fault a =
     (case queue a of
        [] \<Rightarrow> a
      | (tid, t) # rest \<Rightarrow>
          (case t of
             process_sensor_data_batch_task readings_data \<Rightarrow>
               (case process_sensor_data_batch now fault readings_data (db a) of
                  (updates, ret, chained, d') \<Rightarrow>
                    a\<lparr>db := d',
                      queue := rest @ (if chained then [(new_id, calculate_daily_stats_task)] else []),
                      backend := (backend a)(tid \<mapsto> store_result (Inr ret))\<rparr>)
           | calculate_daily_stats_task \<Rightarrow>
               (case calculate_daily_stats now fault (db a) of
                  (ret, d') \<Rightarrow>
                    a\<lparr>db := d', queue := rest,
                      backend := (backend a)(tid \<mapsto> store_result (Inr ret))\<rparr>)))"

section \<open>main.py: GET /task/{task_id}\<close>

text \<open>
  \<open>celery_app.AsyncResult(task_id)\<close> reads the result backend; a task the backend does not
  know is PENDING. \<open>task.info.get\<close> raises AttributeError when \<open>info\<close> is not a dictionary.
  \<open>py_str\<close> is \<open>str\<close> of a value, \<open>py_repr\<close> its \<open>repr\<close> (for a text without quotes or
  escapes), \<open>str_info\<close> is \<open>str(task.info)\<close>.
\<close>

record TaskResponse =
  task_id :: string
  status :: string
  message :: string

definition AsyncResult_of :: "app \<Rightarrow> string \<Rightarrow> AsyncResult" where
  "AsyncResult_of a tid =
     (case backend a tid of None \<Rightarrow> \<lparr>state = ''PENDING'', info = NoInfo\<rparr> | Some r \<Rightarrow> r)"

definition quoted :: "string \<Rightarrow> string" where
  "quoted s = [CHR 39] @ s @ [CHR 39]"

definition info_get :: "task_info \<Rightarrow> string \<Rightarrow> jval \<Rightarrow> exn + jval" where
  "info_get i k dflt =
     (case i of
        DictInfo d \<Rightarrow> Inr (case map_of d k of None \<Rightarrow> dflt | Some v \<Rightarrow> v)
      | NoInfo \<Rightarrow> Inl (quoted ''NoneType'' @ '' object has no attribute '' @ quoted ''get'')
      | ExcInfo e \<Rightarrow> Inl (quoted ''Exception'' @ '' object has no attribute '' @ quoted ''get''))"

definition py_str :: "jval \<Rightarrow> string" where
  "py_str v = (case v of JStr s \<Rightarrow> s | JNat n \<Rightarrow> str_nat n)"

definition py_repr :: "jval \<Rightarrow> string" where
  "py_repr v = (case v of JStr s \<Rightarrow> quoted s | JNat n \<Rightarrow> str_nat n)"

fun join_items :: "jdict \<Rightarrow> string" where
  "join_items [] = []"
| "join_items [(k, v)] = quoted k @ '': '' @ py_repr v"
| "join_items ((k, v) # kvs) = quoted k @ '': '' @ py_repr v @ '', '' @ join_items kvs"

definition str_info :: "task_info \<Rightarrow> string" where
  "str_info i =
     (case i of
        NoInfo \<Rightarrow> ''None''
      | DictInfo d \<Rightarrow> ''{'' @ join_items d @ ''}''
      | ExcInfo e \<Rightarrow> e)"

definition get_task_status :: "string \<Rightarrow> app \<Rightarrow> HTTPException + TaskResponse" where
  "get_task_status tid a =
     (let task = AsyncResult_of a tid in
      if state task = ''PENDING'' then
        Inr \<lparr>task_id = tid, status = ''PENDING'', message = ''Task is pending''\<rparr>
      else if state task = ''PROGRESS'' then
        (case info_get (info task) ''current'' (JNat 0) of
           Inl e \<Rightarrow> Inl (HTTPException 500 (''Error checking task status: '' @ e))
         | Inr cur \<Rightarrow>
             (case info_get (info task) ''total'' (JNat 0) of
                Inl e \<Rightarrow> Inl (HTTPException 500 (''Error checking task status: '' @ e))
              | Inr tot \<Rightarrow>
                  Inr \<lparr>task_id = tid, status = ''PROGRESS'',
                       message = ''Task is in progress: '' @ py_str cur @ ''/'' @ py_str tot\<rparr>))
      else if state task = ''SUCCESS'' then
        (case info_get (info task) ''message'' (JStr ''Task completed successfully'') of
           Inl e \<Rightarrow> Inl (HTTPException 500 (''Error checking task status: '' @ e))
         | Inr m \<Rightarrow> Inr \<lparr>task_id = tid, status = ''SUCCESS'', message = py_str m\<rparr>)
      else
        Inr \<lparr>task_id = tid, status = ''FAILURE'', message = str_info (info task)\<rparr>)"

section \<open>main.py: DELETE /data/clear\<close>

text \<open>The response carries the two counts \<open>sensor_readings_deleted\<close> and \<open>daily_stats_deleted\<close>.\<close>

definition clear_all_data :: "exn option \<Rightarrow> app \<Rightarrow> (HTTPException + nat \<times> nat) \<times> app" where
  "clear_all_data fault a =
     (case fault of
        Some e \<Rightarrow> (Inl (HTTPException 500 (''Error clearing data: '' @ e)), a)
      | None \<Rightarrow>
          (Inr (length (sensor_readings (db a)), length (daily_stats (db a))),
           a\<lparr>db := (db a)\<lparr>sensor_readings := [], daily_stats := []\<rparr>\<rparr>))"

section \<open>The states the application can be in\<close>

text \<open>
  From start-up, any sequence of: a \<open>POST /sensor-data\<close> request, the worker running the
  oldest queued task, a run of \<open>calculate_daily_stats\<close> or of \<open>cleanup_old_data\<close> (submitted
  by a schedule or by hand), and a \<open>DELETE /data/clear\<close> request; each at any time and with
  or without a database fault. The read-only endpoints change nothing.
\<close>

inductive reachable :: "app \<Rightarrow> bool" where
  startup: "reachable startup_event"
| post: "reachable a \<Longrightarrow> reachable (snd (post_sensor_data tid now fault body a))"
| work: "reachable a \<Longrightarrow> reachable (worker new_id now fault a)"
| stats: "reachable a \<Longrightarrow> reachable (a\<lparr>db := snd (calculate_daily_stats now fault (db a))\<rparr>)"
| cleanup: "reachable a \<Longrightarrow> reachable (a\<lparr>db := snd (cleanup_old_data now fault (db a))\<rparr>)"
| clear: "reachable a \<Longrightarrow> reachable (snd (clear_all_data fault a))"

section \<open>Notions used in the properties\<close>

text \<open>
  The columns of a \<open>daily_stats\<close> row that the program writes (all but the primary key,
  which the database assigns), and the same columns as a result row of the statistics
  query gives them for day \<open>y\<close> (used for result rows whose aggregates are not NULL).
\<close>

definition logical_row :: "DailyStats \<Rightarrow> datetime \<times> string \<times> string \<times> real \<times> real \<times> real \<times> nat" where
  "logical_row s = (date s, DailyStats.field_id s, DailyStats.sensor_type s,
                    avg_value s, min_value s, max_value s, count_readings s)"

definition stat_row_logical :: "int \<Rightarrow> stat_row \<Rightarrow> datetime \<times> string \<times> string \<times> real \<times> real \<times> real \<times> nat" where
  "stat_row_logical y x = (case x of (f, s, a, mn, mx, c) \<Rightarrow> (datetime_of_date y, f, s, the a, the mn, the mx, c))"

text \<open>A result row of the statistics query whose aggregates are not NULL and that counts a row.\<close>

definition stat_row_ok :: "stat_row \<Rightarrow> bool" where
  "stat_row_ok x = (case x of (f, s, a, mn, mx, c) \<Rightarrow> a \<noteq> None \<and> mn \<noteq> None \<and> mx \<noteq> None \<and> 1 \<le> c)"

text \<open>
  A reading is \<open>tagged\<close> when its field identifier and sensor type are not empty; an
  application state is, when all stored readings and all queued readings are. A database
  is \<open>counted\<close> when every \<open>daily_stats\<close> row counts at least one reading.
\<close>

definition tagged :: "'a SensorReadingBase_scheme \<Rightarrow> bool" where
  "tagged r = (field_id r \<noteq> [] \<and> sensor_type r \<noteq> [])"

fun task_tagged :: "string \<times> task \<Rightarrow> bool" where
  "task_tagged (tid, process_sensor_data_batch_task readings_data) = list_all tagged readings_data"
| "task_tagged (tid, calculate_daily_stats_task) = True"

definition app_tagged :: "app \<Rightarrow> bool" where
  "app_tagged a = (list_all tagged (sensor_readings (db a)) \<and> list_all task_tagged (queue a))"

definition counted :: "database \<Rightarrow> bool" where
  "counted d = list_all (\<lambda>s. 1 \<le> count_readings s) (daily_stats d)"

section \<open>Sample data\<close>

definition sample_reading :: SensorReadingCreate where
  "sample_reading = \<lparr>timestamp = 1000, field_id = ''F1'', sensor_type = ''temp'',
     reading_value = 10, unit = ''C''\<rparr>"

definition sample_body :: "raw_reading list" where
  "sample_body =
     [\<lparr>raw_timestamp = Some 1000, raw_field_id = Some ''F1'', raw_sensor_type = Some ''temp'',
       raw_reading_value = Some 10, raw_unit = Some ''C''\<rparr>,
      \<lparr>raw_timestamp = Some 2000, raw_field_id = Some ''F2'', raw_sensor_type = Some ''humidity'',
       raw_reading_value = Some 55, raw_unit = Some ''%''\<rparr>]"



definition sample_app_posted :: app where
  "sample_app_posted = snd (post_sensor_data ''task-1'' 5000 None sample_body startup_event)"

definition sample_app_rolled :: app where
  "sample_app_rolled =
     sample_app_posted\<lparr>db := snd (calculate_daily_stats 90000 None (db sample_app_posted))\<rparr>"


section \<open>Inserting readings and dispatching a batch\<close>

lemma length_add_all: "length (add_all now k rs) = length rs"
  by (induction rs arbitrary: k) auto




lemma tagged_add_all: "list_all tagged rs \<Longrightarrow> list_all tagged (add_all now k rs)"
  by (induction rs arbitrary: k) (auto simp: tagged_def SensorReading_of_dict_def new_SensorReading_def)

lemma create_sensor_data_over_100:
  "length readings > 100 \<Longrightarrow>
   create_sensor_data tid now fault readings a =
     (Inr (Accepted (''Processing '' @ str_nat (length readings) @ '' readings in background'')
             tid ''processing''),
      a\<lparr>queue := queue a @ [(tid, process_sensor_data_batch_task readings)]\<rparr>)"
  by (simp add: create_sensor_data_def process_large_batch_def)

lemma create_sensor_data_upto_100:
  "length readings \<le> 100 \<Longrightarrow>
   create_sensor_data tid now None readings a =
     (Inr (Rows (add_all now (sensor_readings_seq (db a)) readings)),
      a\<lparr>db := (db a)\<lparr>sensor_readings :=
                        sensor_readings (db a) @ add_all now (sensor_readings_seq (db a)) readings,
                      sensor_readings_seq := sensor_readings_seq (db a) + length readings\<rparr>\<rparr>)"
  by (simp add: create_sensor_data_def create_sensor_readings_batch_def Let_def)

text \<open>
  Claim C1. The claim (and the docstring of \<open>create_sensor_data\<close>) send a batch of 100 or more
  readings to the background. The test in the code is \<open>len(readings) > 100\<close>: a batch of
  exactly 100 readings is inserted at once, the response is the list of the 100 stored
  rows, and no task is queued.
\<close>

theorem create_sensor_data_100_synchronous:
  "fst (create_sensor_data ''task-1'' 0 None (replicate 100 sample_reading) startup_event)
     = Inr (Rows (add_all 0 1 (replicate 100 sample_reading)))
   \<and> length (add_all 0 1 (replicate 100 sample_reading)) = 100
   \<and> queue (snd (create_sensor_data ''task-1'' 0 None (replicate 100 sample_reading)
        startup_event)) = []
   \<and> length (sensor_readings (db (snd (create_sensor_data ''task-1'' 0 None
        (replicate 100 sample_reading) startup_event)))) = 100"
  by (simp add: create_sensor_data_upto_100 length_add_all startup_event_def create_tables_def)


lemma validate_reading_nonempty:
  "validate_reading j = Some r \<Longrightarrow> field_id r \<noteq> [] \<and> sensor_type r \<noteq> []"
  by (auto simp: validate_reading_def split: option.splits if_splits)



lemma those_validated_tagged:
  "those (map validate_reading body) = Some readings \<Longrightarrow> list_all tagged readings"
proof (induction body arbitrary: readings)
  case Nil
  then show ?case by simp
next
  case (Cons j js)
  then obtain r rs where "validate_reading j = Some r" "those (map validate_reading js) = Some rs"
      "readings = r # rs"
    by (auto split: option.splits)
  with Cons.IH [of rs] validate_reading_nonempty [of j r] show ?case
    by (simp add: tagged_def)
qed




section \<open>The retention sweep\<close>

lemma cleanup_old_data_daily_stats:
  "daily_stats (snd (cleanup_old_data now fault d)) = daily_stats d"
  by (cases fault) (simp_all add: cleanup_old_data_def Let_def)

lemma cleanup_old_data_tagged:
  "list_all tagged (sensor_readings d) \<Longrightarrow>
   list_all tagged (sensor_readings (snd (cleanup_old_data now fault d)))"
  by (cases fault) (simp_all add: cleanup_old_data_def Let_def list_all_iff)

text \<open>
  Claim C5. With the cutoff 90 days (7776000 seconds) before \<open>now\<close>, \<open>cleanup_old_data\<close>
  keeps exactly the readings whose timestamp is not before the cutoff, in their order and
  unchanged, and reports as \<open>deleted_count\<close> the number of readings with a timestamp
  strictly before the cutoff, which is the number of rows that are gone.
\<close>

theorem cleanup_old_data_deletes_exactly_old_rows:
  "sensor_readings (snd (cleanup_old_data now None d))
     = filter (\<lambda>r. now - 7776000 \<le> timestamp r) (sensor_readings d)
   \<and> map_of (fst (cleanup_old_data now None d)) ''deleted_count''
     = Some (JNat (length (filter (\<lambda>r. timestamp r < now - 7776000) (sensor_readings d))))
   \<and> length (filter (\<lambda>r. timestamp r < now - 7776000) (sensor_readings d))
       + length (sensor_readings (snd (cleanup_old_data now None d)))
     = length (sensor_readings d)"
proof -
  have c: "now - timedelta_days 90 = now - 7776000"
    by (simp add: timedelta_days_def)
  have f: "(\<lambda>r::SensorReading. \<not> timestamp r < now - 7776000)
             = (\<lambda>r. now - 7776000 \<le> timestamp r)"
    by (auto simp: fun_eq_iff)
  have l: "length (filter (\<lambda>r. timestamp r < now - 7776000) (sensor_readings d))
       + length (filter (\<lambda>r. \<not> timestamp r < now - 7776000) (sensor_readings d))
     = length (sensor_readings d)"
    by (rule sum_length_filter_compl)
  show ?thesis
    using l by (simp add: cleanup_old_data_def Let_def c f)
qed

text \<open>
  Claim C9. Whatever the database holds, and whether or not the sweep fails,
  \<open>cleanup_old_data\<close> leaves table \<open>daily_stats\<close> (and its key counter) as it was.
\<close>

theorem cleanup_old_data_keeps_daily_stats:
  "daily_stats (snd (cleanup_old_data now fault d)) = daily_stats d
   \<and> daily_stats_seq (snd (cleanup_old_data now fault d)) = daily_stats_seq d"
  by (cases fault) (simp_all add: cleanup_old_data_def Let_def)

section \<open>The daily rollup\<close>


lemma sql_min_nonempty: "vs \<noteq> [] \<Longrightarrow> sql_min vs \<noteq> None"
  by (cases vs) auto

lemma sql_max_nonempty: "vs \<noteq> [] \<Longrightarrow> sql_max vs \<noteq> None"
  by (cases vs) auto

lemma group_values_nonempty:
  assumes "r \<in> set rows"
  shows "map reading_value (filter (\<lambda>r'. field_id r' = field_id r \<and> sensor_type r' = sensor_type r) rows) \<noteq> []"
proof -
  from assms have "r \<in> set (filter (\<lambda>r'. field_id r' = field_id r \<and> sensor_type r' = sensor_type r) rows)"
    by simp
  then have "filter (\<lambda>r'. field_id r' = field_id r \<and> sensor_type r' = sensor_type r) rows \<noteq> []"
    by (metis empty_iff list.set(1))
  then show ?thesis by simp
qed

lemma stat_row_ok_group:
  "vs \<noteq> [] \<Longrightarrow> stat_row_ok (f, s, sql_avg vs, sql_min vs, sql_max vs, length vs)"
  by (cases vs) (simp_all add: stat_row_ok_def sql_avg_def)

lemma stats_query_ok: "list_all stat_row_ok (stats_query y d)"
proof -
  let ?rows = "filter (\<lambda>r. date_of (timestamp r) = y) (sensor_readings d)"
  have "stat_row_ok x" if "x \<in> set (stats_query y d)" for x
  proof -
    from that obtain r where r: "r \<in> set ?rows"
      and x: "x = (let vs = map reading_value
                           (filter (\<lambda>r'. field_id r' = field_id r \<and> sensor_type r' = sensor_type r) ?rows)
                in (field_id r, sensor_type r, sql_avg vs, sql_min vs, sql_max vs, length vs))"
      unfolding stats_query_def Let_def by auto
    show ?thesis
      unfolding x Let_def by (rule stat_row_ok_group) (rule group_values_nonempty [OF r])
  qed
  then show ?thesis
    by (simp add: list_all_iff)
qed

lemma logical_row_simp:
  "logical_row \<lparr>DailyStats.id' = k, date = t, DailyStats.field_id = f, DailyStats.sensor_type = s,
      avg_value = a, min_value = mn, max_value = mx, count_readings = c\<rparr> = (t, f, s, a, mn, mx, c)"
  by (simp add: logical_row_def)

lemma stat_row_logical_simp:
  "stat_row_logical y (f, s, Some a, Some mn, Some mx, c) = (datetime_of_date y, f, s, a, mn, mx, c)"
  by (simp add: stat_row_logical_def)

lemma insert_stats_ok:
  "list_all stat_row_ok rows \<Longrightarrow>
   \<exists>ds. insert_stats y k rows = Inr ds
      \<and> map logical_row ds = map (stat_row_logical y) rows
      \<and> map DailyStats.id' ds = [k ..< k + length rows]"
proof (induction rows arbitrary: k)
  case Nil
  then show ?case by simp
next
  case (Cons x rows)
  obtain f s a mn mx c where x: "x = (f, s, a, mn, mx, c)"
    by (cases x) auto
  from Cons.prems x obtain a' mn' mx' where some: "a = Some a'" "mn = Some mn'" "mx = Some mx'"
    by (auto simp: stat_row_ok_def)
  from Cons.prems have "list_all stat_row_ok rows" by simp
  from Cons.IH [OF this, of "Suc k"] obtain ds where ds: "insert_stats y (Suc k) rows = Inr ds"
     "map logical_row ds = map (stat_row_logical y) rows"
     "map DailyStats.id' ds = [Suc k ..< Suc k + length rows]"
    by blast
  have u: "[k ..< k + length (x # rows)] = k # [Suc k ..< Suc k + length rows]"
    using upt_conv_Cons [of k "k + length (x # rows)"] by simp
  let ?new = "\<lparr>DailyStats.id' = k, date = datetime_of_date y, DailyStats.field_id = f,
      DailyStats.sensor_type = s, avg_value = a', min_value = mn', max_value = mx',
      count_readings = c\<rparr>"
  have step: "insert_stats y k (x # rows) = Inr (?new # ds)"
    by (simp add: x some py_float_def ds(1))
  have l: "map logical_row (?new # ds) = map (stat_row_logical y) (x # rows)"
    by (simp add: x some logical_row_simp stat_row_logical_simp ds(2))
  have i: "map DailyStats.id' (?new # ds) = [k ..< k + length (x # rows)]"
    by (simp only: u list.map ds(3)) simp
  from step l i show ?case
    by blast
qed




lemma logical_row_count:
  assumes "map logical_row new = map (stat_row_logical y) rows" "list_all stat_row_ok rows"
  shows "list_all (\<lambda>s. 1 \<le> count_readings s) new"
  using assms
proof (induction new arbitrary: rows)
  case Nil
  then show ?case by simp
next
  case (Cons s new)
  then obtain x rows' where r: "rows = x # rows'" "logical_row s = stat_row_logical y x"
      "map logical_row new = map (stat_row_logical y) rows'"
    by (cases rows) auto
  from Cons.prems(2) r(1) have ok: "stat_row_ok x" "list_all stat_row_ok rows'"
    by simp_all
  obtain f t a mn mx c where x: "x = (f, t, a, mn, mx, c)"
    by (cases x) auto
  from r(2) ok(1) have "1 \<le> count_readings s"
    by (simp add: x logical_row_def stat_row_logical_def stat_row_ok_def)
  with Cons.IH [OF r(3) ok(2)] show ?case by simp
qed

lemma calculate_daily_stats_commits:
  "\<exists>new. calculate_daily_stats now None d =
      ([(''status'', JStr ''SUCCESS''),
        (''message'', JStr (''Daily stats calculated for '' @ str_date (date_of now - 1)))],
       d\<lparr>daily_stats := filter (\<lambda>s. date_of (date s) \<noteq> date_of now - 1) (daily_stats d) @ new,
         daily_stats_seq := daily_stats_seq d + length new\<rparr>)
    \<and> map logical_row new = map (stat_row_logical (date_of now - 1)) (stats_query (date_of now - 1) d)
    \<and> map DailyStats.id' new = [daily_stats_seq d ..< daily_stats_seq d + length new]"
proof -
  from insert_stats_ok [OF stats_query_ok, of "date_of now - 1" "daily_stats_seq d" "date_of now - 1" d]
  obtain ds where ds: "insert_stats (date_of now - 1) (daily_stats_seq d) (stats_query (date_of now - 1) d) = Inr ds"
    "map logical_row ds = map (stat_row_logical (date_of now - 1)) (stats_query (date_of now - 1) d)"
    "map DailyStats.id' ds = [daily_stats_seq d ..< daily_stats_seq d + length (stats_query (date_of now - 1) d)]"
    by blast
  from ds(2) have "length ds = length (stats_query (date_of now - 1) d)"
    by (metis length_map)
  then have i: "map DailyStats.id' ds = [daily_stats_seq d ..< daily_stats_seq d + length ds]"
    using ds(3) by simp
  have "calculate_daily_stats now None d =
      ([(''status'', JStr ''SUCCESS''),
        (''message'', JStr (''Daily stats calculated for '' @ str_date (date_of now - 1)))],
       d\<lparr>daily_stats := filter (\<lambda>s. date_of (date s) \<noteq> date_of now - 1) (daily_stats d) @ ds,
         daily_stats_seq := daily_stats_seq d + length ds\<rparr>)"
    by (simp add: calculate_daily_stats_def Let_def ds(1))
  with ds(2) i show ?thesis
    by blast
qed

lemma calculate_daily_stats_readings:
  "sensor_readings (snd (calculate_daily_stats now fault d)) = sensor_readings d"
proof (cases fault)
  case None
  from calculate_daily_stats_commits [of now d] show ?thesis
    unfolding None by auto
next
  case (Some e)
  then show ?thesis by (simp add: calculate_daily_stats_def Let_def)
qed

lemma calculate_daily_stats_counted:
  assumes "counted d"
  shows "counted (snd (calculate_daily_stats now fault d))"
proof (cases fault)
  case None
  from calculate_daily_stats_commits [of now d] obtain new where
    n: "daily_stats (snd (calculate_daily_stats now None d))
          = filter (\<lambda>s. date_of (date s) \<noteq> date_of now - 1) (daily_stats d) @ new"
       "map logical_row new = map (stat_row_logical (date_of now - 1)) (stats_query (date_of now - 1) d)"
    by auto
  have "list_all (\<lambda>s. 1 \<le> count_readings s) new"
    using n(2) stats_query_ok by (rule logical_row_count)
  moreover have "list_all (\<lambda>s. 1 \<le> count_readings s)
      (filter (\<lambda>s. date_of (date s) \<noteq> date_of now - 1) (daily_stats d))"
    using assms by (simp add: counted_def list_all_iff)
  ultimately show ?thesis
    by (simp add: counted_def n(1) None)
next
  case (Some e)
  with assms show ?thesis
    by (simp add: calculate_daily_stats_def Let_def)
qed





section \<open>The worker and the task status\<close>

lemma batch_loop_eq:
  "batch_loop tot i rs (session, n, ups) =
     (session @ rs, n + length rs,
      ups @ map (\<lambda>j. (j, tot)) (filter (\<lambda>j. j mod 10 = 0) [i ..< i + length rs]))"
proof (induction rs arbitrary: i session n ups)
  case Nil
  then show ?case by simp
next
  case (Cons r rs)
  have u: "[i ..< i + length (r # rs)] = i # [Suc i ..< Suc i + length rs]"
    using upt_conv_Cons [of i "i + length (r # rs)"] by simp
  show ?case
    unfolding u by (simp add: Cons.IH)
qed

lemma process_sensor_data_batch_commits:
  "process_sensor_data_batch now None rs d =
     ((0, length rs) # map (\<lambda>j. (j, length rs)) (filter (\<lambda>j. j mod 10 = 0) [0 ..< length rs]),
      [(''status'', JStr ''SUCCESS''),
       (''processed_count'', JNat (length rs)),
       (''message'', JStr (''Successfully processed '' @ str_nat (length rs) @ '' sensor readings''))],
      True,
      d\<lparr>sensor_readings := sensor_readings d @ add_all now (sensor_readings_seq d) rs,
        sensor_readings_seq := sensor_readings_seq d + length rs\<rparr>)"
  by (simp add: process_sensor_data_batch_def batch_loop_eq)

lemma process_sensor_data_batch_fails:
  "process_sensor_data_batch now (Some e) rs d =
     ((0, length rs) # map (\<lambda>j. (j, length rs)) (filter (\<lambda>j. j mod 10 = 0) [0 ..< length rs]),
      [(''status'', JStr ''FAILURE''), (''error'', JStr e)],
      False, d)"
  by (simp add: process_sensor_data_batch_def batch_loop_eq)

lemma process_sensor_data_batch_daily_stats:
  "daily_stats (snd (snd (snd (process_sensor_data_batch now fault rs d)))) = daily_stats d"
  by (cases fault) (simp_all add: process_sensor_data_batch_commits process_sensor_data_batch_fails)

lemma worker_failed_batch_status:
  "get_task_status tid (worker new_id now (Some e)
      (a\<lparr>queue := (tid, process_sensor_data_batch_task readings_data) # rest\<rparr>))
     = Inr \<lparr>task_id = tid, status = ''SUCCESS'', message = ''Task completed successfully''\<rparr>
   \<and> db (worker new_id now (Some e)
      (a\<lparr>queue := (tid, process_sensor_data_batch_task readings_data) # rest\<rparr>)) = db a"
  by (simp add: get_task_status_def worker_def process_sensor_data_batch_fails
        AsyncResult_of_def store_result_def info_get_def py_str_def)

lemma sample_batch_queued:
  "snd (create_sensor_data ''task-1'' 5000 None (replicate 101 sample_reading) startup_event)
     = startup_event\<lparr>queue := [(''task-1'',
         process_sensor_data_batch_task (replicate 101 sample_reading))]\<rparr>"
  by (simp add: create_sensor_data_over_100 startup_event_def)

text \<open>
  Claim C2. A batch of 101 readings is submitted and queued as task \<open>task-1\<close>; when the
  worker runs it the database raises (\<open>connection lost\<close>). The task function catches the
  exception and returns a dictionary, so Celery stores the task as SUCCESS, and the
  status endpoint answers SUCCESS with the default message: neither FAILURE nor the
  text of the error reaches the caller, and no reading was stored.
\<close>

theorem failed_batch_polls_as_success:
  "get_task_status ''task-1''
     (worker ''task-2'' 6000 (Some ''connection lost'')
        (snd (create_sensor_data ''task-1'' 5000 None (replicate 101 sample_reading)
                startup_event)))
     = Inr \<lparr>task_id = ''task-1'', status = ''SUCCESS'',
            message = ''Task completed successfully''\<rparr>
   \<and> sensor_readings (db (worker ''task-2'' 6000 (Some ''connection lost'')
        (snd (create_sensor_data ''task-1'' 5000 None (replicate 101 sample_reading)
                startup_event)))) = []"
  unfolding sample_batch_queued
  by (simp add: worker_failed_batch_status) (simp add: startup_event_def create_tables_def)

section \<open>Invariants of the application state\<close>

lemma create_sensor_data_tagged:
  assumes "app_tagged a" "list_all tagged readings"
  shows "app_tagged (snd (create_sensor_data tid now fault readings a))"
proof (cases "length readings > 100")
  case True
  with assms show ?thesis
    by (simp add: create_sensor_data_over_100 app_tagged_def)
next
  case False
  show ?thesis
  proof (cases fault)
    case None
    with False assms show ?thesis
      by (simp add: create_sensor_data_upto_100 app_tagged_def tagged_add_all)
  next
    case (Some e)
    with False assms show ?thesis
      by (simp add: create_sensor_data_def create_sensor_readings_batch_def)
  qed
qed

lemma post_sensor_data_tagged:
  assumes "app_tagged a"
  shows "app_tagged (snd (post_sensor_data tid now fault body a))"
proof (cases "those (map validate_reading body)")
  case None
  with assms show ?thesis by (simp add: post_sensor_data_def)
next
  case (Some readings)
  then have "list_all tagged readings" by (rule those_validated_tagged)
  with assms Some show ?thesis
    by (simp add: post_sensor_data_def create_sensor_data_tagged)
qed

lemma worker_tagged:
  assumes "app_tagged a"
  shows "app_tagged (worker new_id now fault a)"
proof (cases "queue a")
  case Nil
  with assms show ?thesis by (simp add: worker_def)
next
  case (Cons p rest)
  obtain tid t where p: "p = (tid, t)" by (cases p)
  from assms Cons p have q: "task_tagged (tid, t)" "list_all task_tagged rest"
      and r: "list_all tagged (sensor_readings (db a))"
    by (simp_all add: app_tagged_def)
  show ?thesis
  proof (cases t)
    case (process_sensor_data_batch_task rs)
    with q have rs: "list_all tagged rs" by simp
    show ?thesis
    proof (cases fault)
      case None
      with Cons p process_sensor_data_batch_task q r rs show ?thesis
        by (simp add: worker_def process_sensor_data_batch_commits app_tagged_def tagged_add_all)
    next
      case (Some e)
      with Cons p process_sensor_data_batch_task q r show ?thesis
        by (simp add: worker_def process_sensor_data_batch_fails app_tagged_def)
    qed
  next
    case calculate_daily_stats_task
    with Cons p q r show ?thesis
      by (simp add: worker_def app_tagged_def split_def calculate_daily_stats_readings)
  qed
qed

lemma reachable_tagged: "reachable a \<Longrightarrow> app_tagged a"
proof (induction rule: reachable.induct)
  case startup
  show ?case by (simp add: app_tagged_def startup_event_def create_tables_def)
next
  case (post a tid now fault body)
  then show ?case by (simp add: post_sensor_data_tagged)
next
  case (work a new_id now fault)
  then show ?case by (simp add: worker_tagged)
next
  case (stats a now fault)
  then show ?case by (simp add: app_tagged_def calculate_daily_stats_readings)
next
  case (cleanup a now fault)
  then show ?case by (simp add: app_tagged_def cleanup_old_data_tagged)
next
  case (clear a fault)
  then show ?case by (cases fault) (simp_all add: clear_all_data_def app_tagged_def)
qed

lemma post_sensor_data_daily_stats:
  "daily_stats (db (snd (post_sensor_data tid now fault body a))) = daily_stats (db a)"
  by (auto simp: post_sensor_data_def create_sensor_data_def process_large_batch_def
        create_sensor_readings_batch_def Let_def split: option.splits)

lemma worker_counted:
  assumes "counted (db a)"
  shows "counted (db (worker new_id now fault a))"
proof (cases "queue a")
  case Nil
  with assms show ?thesis by (simp add: worker_def)
next
  case (Cons p rest)
  obtain tid t where p: "p = (tid, t)" by (cases p)
  show ?thesis
  proof (cases t)
    case (process_sensor_data_batch_task rs)
    have "daily_stats (db (worker new_id now fault a)) = daily_stats (db a)"
      using process_sensor_data_batch_daily_stats [of now fault rs "db a"]
      by (simp add: worker_def Cons p process_sensor_data_batch_task split_def)
    with assms show ?thesis by (simp add: counted_def)
  next
    case calculate_daily_stats_task
    have "db (worker new_id now fault a) = snd (calculate_daily_stats now fault (db a))"
      by (simp add: worker_def Cons p calculate_daily_stats_task split_def)
    with assms show ?thesis by (simp add: calculate_daily_stats_counted)
  qed
qed

lemma reachable_counted: "reachable a \<Longrightarrow> counted (db a)"
proof (induction rule: reachable.induct)
  case startup
  show ?case by (simp add: counted_def startup_event_def create_tables_def)
next
  case (post a tid now fault body)
  then show ?case by (simp add: counted_def post_sensor_data_daily_stats)
next
  case (work a new_id now fault)
  then show ?case by (simp add: worker_counted)
next
  case (stats a now fault)
  then show ?case by (simp add: calculate_daily_stats_counted)
next
  case (cleanup a now fault)
  then show ?case by (simp add: counted_def cleanup_old_data_daily_stats)
next
  case (clear a fault)
  then show ?case by (cases fault) (simp_all add: clear_all_data_def counted_def)
qed

lemma reachable_sample_app_posted: "reachable sample_app_posted"
  unfolding sample_app_posted_def by (intro reachable.post reachable.startup)

lemma reachable_sample_app_rolled: "reachable sample_app_rolled"
  unfolding sample_app_rolled_def sample_app_posted_def
  by (intro reachable.stats reachable.post reachable.startup)

lemma sample_count: "map count_readings (daily_stats (db sample_app_rolled)) = [1, 1]"
  by code_simp

text \<open>
  Claim C7. In every state the application can reach, every row of table \<open>daily_stats\<close>
  has \<open>count_readings\<close> at least 1: the only operation that creates rows,
  \<open>calculate_daily_stats\<close>, makes one row for each group of the GROUP BY, and a group has at
  least one reading; the other operations keep or delete rows.
\<close>

theorem daily_stats_count_at_least_one:
  "reachable a \<Longrightarrow> list_all (\<lambda>s. 1 \<le> count_readings s) (daily_stats (db a))"
  using reachable_counted [of a] by (simp add: counted_def)

theorem daily_stats_count_at_least_one_witness:
  "reachable sample_app_rolled
   \<and> map count_readings (daily_stats (db sample_app_rolled)) = [1, 1]
   \<and> list_all (\<lambda>s. 1 \<le> count_readings s) (daily_stats (db sample_app_rolled))"
  using daily_stats_count_at_least_one [OF reachable_sample_app_rolled] reachable_sample_app_rolled sample_count
  by simp

section \<open>Querying readings\<close>

lemma sorted_desc_order_by:
  "sorted_wrt (\<lambda>x y. timestamp y \<le> timestamp x) (order_by_timestamp_desc rows)"
proof -
  have "sorted (map (\<lambda>r. - timestamp r) (order_by_timestamp_desc rows))"
    unfolding order_by_timestamp_desc_def by (rule sorted_sort_key)
  then show ?thesis
    by (simp add: sorted_map)
qed

lemma mset_order_by: "mset (order_by_timestamp_desc rows) = mset rows"
  by (simp add: order_by_timestamp_desc_def)

lemma sample_posted_query:
  "get_readings None 10 0 None None sample_app_posted
     = Inr [\<lparr>timestamp = 2000, field_id = ''F2'', sensor_type = ''humidity'', reading_value = 55,
             unit = ''%'', id' = 2\<rparr>,
            \<lparr>timestamp = 1000, field_id = ''F1'', sensor_type = ''temp'', reading_value = 10,
             unit = ''C'', id' = 1\<rparr>]"
  by code_simp

text \<open>
  Claim C6, as stated: the rows returned are exactly those that match every filter that is
  given. With \<open>field_id\<close> given as the empty string no stored row matches, and the query
  returns all rows.
\<close>

theorem get_readings_empty_filter_returns_all:
  "get_readings None 10 0 (Some '''') None sample_app_posted
     = Inr [\<lparr>timestamp = 2000, field_id = ''F2'', sensor_type = ''humidity'', reading_value = 55,
             unit = ''%'', id' = 2\<rparr>,
            \<lparr>timestamp = 1000, field_id = ''F1'', sensor_type = ''temp'', reading_value = 10,
             unit = ''C'', id' = 1\<rparr>]
   \<and> filter (\<lambda>r. field_id r = '''') (sensor_readings (db sample_app_posted)) = []"
  by code_simp

text \<open>
  Claim C6, amended. A filter matches every row when it is absent or the empty string,
  and otherwise the rows whose field is equal to it. Without a database fault,
  \<open>get_readings\<close> returns the window \<open>take limit (drop offset ...)\<close> of a list that holds
  exactly the rows matching both filters, each as often as the table does, in descending
  order of timestamp; so it returns at most \<open>limit\<close> rows.
\<close>

theorem get_readings_filtered_sorted_window:
  fixes a :: app and fid stype :: "string option" and matching :: "SensorReading list"
  defines "matching \<equiv>
     filter (\<lambda>r. (case fid of None \<Rightarrow> True | Some f \<Rightarrow> f = [] \<or> field_id r = f)
               \<and> (case stype of None \<Rightarrow> True | Some s \<Rightarrow> s = [] \<or> sensor_type r = s))
       (sensor_readings (db a))"
  shows "\<exists>ordered.
           get_readings None limit offset fid stype a = Inr (take limit (drop offset ordered))
         \<and> mset ordered = mset matching
         \<and> sorted_wrt (\<lambda>x y. timestamp y \<le> timestamp x) ordered
         \<and> length (take limit (drop offset ordered)) \<le> limit"
proof -
  let ?q1 = "if truthy fid then filter (\<lambda>r. Some (field_id r) = fid) (sensor_readings (db a))
             else sensor_readings (db a)"
  let ?q2 = "if truthy stype then filter (\<lambda>r. Some (sensor_type r) = stype) ?q1 else ?q1"
  have m: "?q2 = matching"
    unfolding matching_def
    by (cases fid; cases stype) (auto simp: truthy_def intro!: filter_cong)
  have g: "get_readings None limit offset fid stype a
             = Inr (take limit (drop offset (order_by_timestamp_desc ?q2)))"
    by (simp add: get_readings_def Let_def)
  show ?thesis
    unfolding g m
    by (intro exI [of _ "order_by_timestamp_desc matching"] conjI refl mset_order_by
          sorted_desc_order_by) simp
qed

text \<open>
  Claim C10. In every state the application can reach, a \<open>field_id\<close> or \<open>sensor_type\<close>
  filter given as the empty string gives the same result as the filter left out, although
  no stored reading has an empty field identifier or an empty sensor type (so a match
  against the empty string would give no row).
\<close>

theorem get_readings_empty_filter_is_absent:
  assumes "reachable a"
  shows "get_readings fault limit offset (Some '''') stype a
           = get_readings fault limit offset None stype a
       \<and> get_readings fault limit offset fid (Some '''') a
           = get_readings fault limit offset fid None a
       \<and> filter (\<lambda>r. field_id r = '''') (sensor_readings (db a)) = []
       \<and> filter (\<lambda>r. sensor_type r = '''') (sensor_readings (db a)) = []"
proof -
  from assms have "app_tagged a" by (rule reachable_tagged)
  then have "field_id r \<noteq> [] \<and> sensor_type r \<noteq> []" if "r \<in> set (sensor_readings (db a))" for r
    using that by (simp add: app_tagged_def list_all_iff tagged_def)
  then have "filter (\<lambda>r. field_id r = '''') (sensor_readings (db a)) = []"
      "filter (\<lambda>r. sensor_type r = '''') (sensor_readings (db a)) = []"
    by (simp_all add: filter_empty_conv)
  moreover have "get_readings fault limit offset (Some '''') stype a
           = get_readings fault limit offset None stype a"
    by (cases fault) (simp_all add: get_readings_def truthy_def)
  moreover have "get_readings fault limit offset fid (Some '''') a
           = get_readings fault limit offset fid None a"
    by (cases fault) (simp_all add: get_readings_def truthy_def)
  ultimately show ?thesis
    by (intro conjI)
qed

theorem get_readings_empty_filter_is_absent_witness:
  "reachable sample_app_posted
   \<and> get_readings None 10 0 (Some '''') None sample_app_posted
     = Inr [\<lparr>timestamp = 2000, field_id = ''F2'', sensor_type = ''humidity'', reading_value = 55,
             unit = ''%'', id' = 2\<rparr>,
            \<lparr>timestamp = 1000, field_id = ''F1'', sensor_type = ''temp'', reading_value = 10,
             unit = ''C'', id' = 1\<rparr>]
   \<and> filter (\<lambda>r. field_id r = '''') (sensor_readings (db sample_app_posted)) = []"
  using get_readings_empty_filter_is_absent [OF reachable_sample_app_posted, of None 10 0 None None]
    reachable_sample_app_posted sample_posted_query
  by simp

section \<open>Field analytics\<close>







end
